theory Spec2Isabelle
  imports Complex_Main
begin

section \<open>Sales analytics system: data model\<close>

text \<open>
  The repository keeps every record as a Python dict with a fixed set of keys.
  \<^verbatim>\<open>parse_transactions\<close> (data_processor.py, lines 1-37) builds a dict with exactly eight
  keys: six strings, the integer \<^verbatim>\<open>Quantity\<close> and the float \<^verbatim>\<open>UnitPrice\<close>.
  \<^verbatim>\<open>validate_and_filter\<close> attaches \<^verbatim>\<open>Amount\<close>, \<^verbatim>\<open>enrich_sales_data\<close> attaches the four
  \<^verbatim>\<open>API_\<close> keys to a copy. The three stages are three records, each extending the one before.

  Python's unbounded \<^verbatim>\<open>int\<close> is \<^typ>\<open>int\<close>; strings are \<^typ>\<open>string\<close> (ASCII). The type of a
  float is the parameter \<open>'f\<close> of the records. The enricher only copies floats and is
  modelled for every \<open>'f\<close>. The peak day is modelled over \<open>pyfloat\<close> below: doubles with
  both infinities and NaN, sums and products rounded after every operation, and the
  \<^verbatim>\<open>OverflowError\<close> of an \<^verbatim>\<open>int\<close> too large for a float. The validator, the product ranking and
  the writer are modelled over exact reals (\<open>'f = real\<close>); what is proved of them is about
  order, counts and text, not about the value of a float operation.
\<close>

record 'f transaction =
  TransactionID :: string
  Date :: string
  ProductID :: string
  ProductName :: string
  Quantity :: int
  UnitPrice :: 'f
  CustomerID :: string
  Region :: string

record 'f valid_transaction = "'f transaction" +
  Amount :: 'f

record 'f enriched_transaction = "'f valid_transaction" +
  API_Category :: "string option"
  API_Brand :: "string option"
  API_Rating :: "'f option"
  API_Match :: bool

text \<open>A catalog entry as \<^verbatim>\<open>create_product_mapping\<close> stores it: each of the three values
  comes from \<^verbatim>\<open>product.get(...)\<close> and may be \<^verbatim>\<open>None\<close>.\<close>

record 'f catalog_entry =
  category :: "string option"
  brand :: "string option"
  rating :: "'f option"

datatype py_error = ValueError | OverflowError

section \<open>Python built-ins used by the code\<close>

subsection \<open>\<^verbatim>\<open>str.replace(c, "")\<close> for a one-character pattern\<close>

definition str_remove :: "char \<Rightarrow> string \<Rightarrow> string" where
  "str_remove c s = filter (\<lambda>x. x \<noteq> c) s"

subsection \<open>\<^verbatim>\<open>int(s)\<close> on a string, base 10\<close>

text \<open>
  \<^verbatim>\<open>int\<close> strips surrounding whitespace, reads an optional sign and then decimal digits, where
  single underscores may stand between two digits. Anything else raises \<^verbatim>\<open>ValueError\<close>.
  On an ASCII string the whitespace is the space and the five characters 0x09 to 0x0D; the
  separators 0x1C to 0x1F are not stripped, so a string that holds one is not a numeral.
  (The interpreter's limit on the length of a numeral is not modelled.)
\<close>

definition is_space :: "char \<Rightarrow> bool" where
  "is_space c = (c \<in> set [CHR '' '', CHR 0x09, CHR 0x0A, CHR 0x0B, CHR 0x0C, CHR 0x0D])"

definition strip :: "string \<Rightarrow> string" where
  "strip s = rev (dropWhile is_space (rev (dropWhile is_space s)))"

definition is_digit :: "char \<Rightarrow> bool" where
  "is_digit c = (c \<in> set ''0123456789'')"

definition digit_val :: "char \<Rightarrow> nat" where
  "digit_val c = of_char c - 48"

fun py_digits :: "bool \<Rightarrow> nat \<Rightarrow> string \<Rightarrow> nat option" where
  "py_digits prev acc [] = (if prev then Some acc else None)"
| "py_digits prev acc (c # cs) =
     (if is_digit c then py_digits True (10 * acc + digit_val c) cs
      else if c = CHR ''_'' \<and> prev then py_digits False acc cs
      else None)"

definition py_int :: "string \<Rightarrow> py_error + int" where
  "py_int s =
     (case strip s of
        [] \<Rightarrow> Inl ValueError
      | c # cs \<Rightarrow>
          if c = CHR ''-'' then
            (case py_digits False 0 cs of None \<Rightarrow> Inl ValueError | Some n \<Rightarrow> Inr (- int n))
          else if c = CHR ''+'' then
            (case py_digits False 0 cs of None \<Rightarrow> Inl ValueError | Some n \<Rightarrow> Inr (int n))
          else
            (case py_digits False 0 (c # cs) of None \<Rightarrow> Inl ValueError | Some n \<Rightarrow> Inr (int n)))"

section \<open>Catalog enricher (api_handler.py)\<close>

text \<open>\<^verbatim>\<open>enriched_tx = tx.copy()\<close> followed by the four assignments.\<close>

definition with_api ::
  "'f valid_transaction \<Rightarrow> string option \<Rightarrow> string option \<Rightarrow> 'f option \<Rightarrow> bool
     \<Rightarrow> 'f enriched_transaction" where
  "with_api tx c b r m =
     \<lparr>TransactionID = TransactionID tx, Date = Date tx, ProductID = ProductID tx,
      ProductName = ProductName tx, Quantity = Quantity tx, UnitPrice = UnitPrice tx,
      CustomerID = CustomerID tx, Region = Region tx, Amount = Amount tx,
      API_Category = c, API_Brand = b, API_Rating = r, API_Match = m\<rparr>"

text \<open>The body of the \<^verbatim>\<open>try\<close> block (lines 92-110): it raises when \<^verbatim>\<open>int\<close> does.\<close>

definition enrich_try ::
  "'f valid_transaction \<Rightarrow> (int \<rightharpoonup> 'f catalog_entry) \<Rightarrow> py_error + 'f enriched_transaction"
  where
  "enrich_try tx product_mapping =
     (case py_int (str_remove CHR ''P'' (ProductID tx)) of
        Inl e \<Rightarrow> Inl e
      | Inr numeric_id \<Rightarrow>
          (let api_id = numeric_id - 100 in
           case product_mapping api_id of
             Some api_product \<Rightarrow>
               Inr (with_api tx (category api_product) (brand api_product)
                      (rating api_product) True)
           | None \<Rightarrow> Inr (with_api tx None None None False)))"

text \<open>One pass of the loop body: the \<^verbatim>\<open>except Exception\<close> handler (lines 112-116)
  catches whatever the block raised.\<close>

definition enrich_one ::
  "'f valid_transaction \<Rightarrow> (int \<rightharpoonup> 'f catalog_entry) \<Rightarrow> 'f enriched_transaction" where
  "enrich_one tx product_mapping =
     (case enrich_try tx product_mapping of
        Inl _ \<Rightarrow> with_api tx None None None False
      | Inr enriched_tx \<Rightarrow> enriched_tx)"

text \<open>The loop appends one record per transaction to \<^verbatim>\<open>enriched_transactions\<close>.\<close>

definition enrich_sales_data ::
  "'f valid_transaction list \<Rightarrow> (int \<rightharpoonup> 'f catalog_entry) \<Rightarrow> 'f enriched_transaction list"
  where
  "enrich_sales_data transactions product_mapping =
     foldl (\<lambda>enriched_transactions tx. enriched_transactions @ [enrich_one tx product_mapping])
       [] transactions"

section \<open>Validator and filter (data_processor.py)\<close>

text \<open>\<^verbatim>\<open>s.startswith(p)\<close>.\<close>

definition startswith :: "string \<Rightarrow> string \<Rightarrow> bool" where
  "startswith s p = (take (length p) s = p)"

text \<open>\<^verbatim>\<open>tx["Amount"] = amount\<close> on a parsed transaction.\<close>

definition with_amount :: "real transaction \<Rightarrow> real \<Rightarrow> real valid_transaction" where
  "with_amount tx amount =
     \<lparr>TransactionID = TransactionID tx, Date = Date tx, ProductID = ProductID tx,
      ProductName = ProductName tx, Quantity = Quantity tx, UnitPrice = UnitPrice tx,
      CustomerID = CustomerID tx, Region = Region tx, Amount = amount\<rparr>"

record filter_summary =
  total_input :: nat
  invalid :: nat
  filtered_by_region :: nat
  filtered_by_amount :: nat
  final_count :: nat

text \<open>
  Line 63, \<^verbatim>\<open>all(field in tx and tx[field] for field in required_fields)\<close>: every key of a
  parsed transaction is present, so the test is the truth value of each field, in the order
  of \<^verbatim>\<open>required_fields\<close>: a string is true when non-empty, a number when non-zero.
\<close>

definition has_required_fields :: "real transaction \<Rightarrow> bool" where
  "has_required_fields tx =
     (TransactionID tx \<noteq> [] \<and> Date tx \<noteq> [] \<and> ProductID tx \<noteq> [] \<and> ProductName tx \<noteq> []
      \<and> Quantity tx \<noteq> 0 \<and> UnitPrice tx \<noteq> 0 \<and> CustomerID tx \<noteq> [] \<and> Region tx \<noteq> [])"

text \<open>The condition of lines 68-74.\<close>

definition breaks_rules :: "real transaction \<Rightarrow> bool" where
  "breaks_rules tx =
     (Quantity tx \<le> 0 \<or> UnitPrice tx \<le> 0
      \<or> \<not> startswith (TransactionID tx) ''T''
      \<or> \<not> startswith (ProductID tx) ''P''
      \<or> \<not> startswith (CustomerID tx) ''C'')"

text \<open>
  One pass of the validation loop (lines 61-85) on the state
  \<open>(valid_transactions, invalid_count)\<close>. The loop also collects the regions and amounts
  that lines 88-92 print; printing is not modelled.
\<close>

definition validate_step ::
  "real valid_transaction list \<times> nat \<Rightarrow> real transaction
     \<Rightarrow> real valid_transaction list \<times> nat" where
  "validate_step st tx =
     (case st of (valid_transactions, invalid_count) \<Rightarrow>
        if \<not> has_required_fields tx then (valid_transactions, invalid_count + 1)
        else if breaks_rules tx then (valid_transactions, invalid_count + 1)
        else (valid_transactions @ [with_amount tx (of_int (Quantity tx) * UnitPrice tx)],
              invalid_count))"

text \<open>
  The whole function. \<^verbatim>\<open>if region:\<close> holds for a non-empty string only;
  \<^verbatim>\<open>min_amount\<close> and \<^verbatim>\<open>max_amount\<close> are tested with \<^verbatim>\<open>is not None\<close>.
\<close>

definition validate_and_filter ::
  "real transaction list \<Rightarrow> string option \<Rightarrow> real option \<Rightarrow> real option
     \<Rightarrow> real valid_transaction list \<times> nat \<times> filter_summary" where
  "validate_and_filter transactions region min_amount max_amount =
     (case foldl validate_step ([], 0) transactions of (valid0, invalid_count) \<Rightarrow>
      let (valid1, filtered_by_region) =
            (if region \<noteq> None \<and> region \<noteq> Some [] then
               (let kept = filter (\<lambda>tx. Some (Region tx) = region) valid0
                in (kept, length valid0 - length kept))
             else (valid0, 0));
          (valid2, filtered_min) =
            (case min_amount of
               Some lo \<Rightarrow>
                 (let kept = filter (\<lambda>tx. Amount tx \<ge> lo) valid1
                  in (kept, length valid1 - length kept))
             | None \<Rightarrow> (valid1, 0));
          (valid3, filtered_max) =
            (case max_amount of
               Some hi \<Rightarrow>
                 (let kept = filter (\<lambda>tx. Amount tx \<le> hi) valid2
                  in (kept, length valid2 - length kept))
             | None \<Rightarrow> (valid2, 0))
      in (valid3, invalid_count,
          \<lparr>total_input = length transactions, invalid = invalid_count,
           filtered_by_region = filtered_by_region,
           filtered_by_amount = filtered_min + filtered_max,
           final_count = length valid3\<rparr>))"

section \<open>Aggregator (data_processor.py)\<close>

subsection \<open>Python built-ins used by the aggregations\<close>

text \<open>
  A dict keeps its keys in insertion order: it is an association list with distinct keys.
  \<open>upsert k init f d\<close> is the pattern of every grouping loop,
  \<^verbatim>\<open>if k not in d: d[k] = init\<close> followed by an update of \<^verbatim>\<open>d[k]\<close> in place;
  a new key goes to the end.
\<close>

fun upsert :: "'k \<Rightarrow> 'v \<Rightarrow> ('v \<Rightarrow> 'v) \<Rightarrow> ('k \<times> 'v) list \<Rightarrow> ('k \<times> 'v) list" where
  "upsert k init f [] = [(k, f init)]"
| "upsert k init f ((k', v) # d) =
     (if k' = k then (k', f v) # d else (k', v) # upsert k init f d)"



subsection \<open>\<^verbatim>\<open>top_selling_products\<close>\<close>



section \<open>Python floats\<close>

text \<open>
  A double is a finite number, carried with its exact value, an infinity or NaN. The zero
  of negative sign is not told apart from the other zero: the two are equal, have the same
  truth value and compare alike.
\<close>

datatype pyfloat = Fin real | PInf | NInf | NaN

text \<open>
  Every arithmetic operation computes the exact result and rounds it to the nearest double,
  a tie going to the even one. Within the range of the finite doubles the rounding is the
  parameter \<open>rnd\<close> of the operations below, so that what is proved of them holds of the
  hardware's rounding. Overflow is written out: a real of magnitude
  \<open>2 ^ 1024 - 2 ^ 970\<close> or more, half-way between the largest double and
  \<open>2 ^ 1024\<close>, rounds to an infinity.
\<close>

definition overflow_threshold :: real where
  "overflow_threshold = 2 ^ 1024 - 2 ^ 970"

definition to_float :: "(real \<Rightarrow> real) \<Rightarrow> real \<Rightarrow> pyfloat" where
  "to_float rnd x =
     (if overflow_threshold \<le> x then PInf
      else if x \<le> - overflow_threshold then NInf
      else Fin (rnd x))"

text \<open>The conversion of an \<^verbatim>\<open>int\<close> operand of a float operation: \<^verbatim>\<open>OverflowError\<close>
  (\<^verbatim>\<open>int too large to convert to float\<close>) where the rounding would overflow.\<close>

definition int_to_float :: "(real \<Rightarrow> real) \<Rightarrow> int \<Rightarrow> py_error + pyfloat" where
  "int_to_float rnd n =
     (if overflow_threshold \<le> \<bar>of_int n\<bar> then Inl OverflowError
      else Inr (Fin (rnd (of_int n))))"

text \<open>\<^verbatim>\<open>a + b\<close> on floats; it never raises.\<close>

fun float_add :: "(real \<Rightarrow> real) \<Rightarrow> pyfloat \<Rightarrow> pyfloat \<Rightarrow> pyfloat" where
  "float_add rnd (Fin x) (Fin y) = to_float rnd (x + y)"
| "float_add rnd NaN b = NaN"
| "float_add rnd a NaN = NaN"
| "float_add rnd PInf NInf = NaN"
| "float_add rnd NInf PInf = NaN"
| "float_add rnd PInf b = PInf"
| "float_add rnd a PInf = PInf"
| "float_add rnd NInf b = NInf"
| "float_add rnd a NInf = NInf"

text \<open>\<^verbatim>\<open>a * b\<close> on floats; it never raises. An infinity times zero is NaN.\<close>

fun float_sign :: "pyfloat \<Rightarrow> int" where
  "float_sign (Fin x) = (if x < 0 then - 1 else if x = 0 then 0 else 1)"
| "float_sign PInf = 1"
| "float_sign NInf = - 1"
| "float_sign NaN = 0"

fun float_mul :: "(real \<Rightarrow> real) \<Rightarrow> pyfloat \<Rightarrow> pyfloat \<Rightarrow> pyfloat" where
  "float_mul rnd (Fin x) (Fin y) = to_float rnd (x * y)"
| "float_mul rnd NaN b = NaN"
| "float_mul rnd a NaN = NaN"
| "float_mul rnd a b =
     (if float_sign a * float_sign b = 0 then NaN
      else if 0 < float_sign a * float_sign b then PInf else NInf)"

text \<open>\<^verbatim>\<open>n * x\<close> for an \<^verbatim>\<open>int\<close> and a float, as in \<^verbatim>\<open>tx["Quantity"] * tx["UnitPrice"]\<close>:
  the \<^verbatim>\<open>int\<close> is converted first.\<close>

definition int_times_float :: "(real \<Rightarrow> real) \<Rightarrow> int \<Rightarrow> pyfloat \<Rightarrow> py_error + pyfloat" where
  "int_times_float rnd n x =
     (case int_to_float rnd n of Inl e \<Rightarrow> Inl e | Inr a \<Rightarrow> Inr (float_mul rnd a x))"

text \<open>\<^verbatim>\<open>a < b\<close> and \<^verbatim>\<open>a <= b\<close> on floats: false as soon as one side is NaN.\<close>

fun float_lt :: "pyfloat \<Rightarrow> pyfloat \<Rightarrow> bool" where
  "float_lt (Fin x) (Fin y) = (x < y)"
| "float_lt NaN b = False"
| "float_lt a NaN = False"
| "float_lt PInf b = False"
| "float_lt a PInf = True"
| "float_lt a NInf = False"
| "float_lt NInf b = True"

fun float_le :: "pyfloat \<Rightarrow> pyfloat \<Rightarrow> bool" where
  "float_le (Fin x) (Fin y) = (x \<le> y)"
| "float_le NaN b = False"
| "float_le a NaN = False"
| "float_le a PInf = True"
| "float_le PInf b = False"
| "float_le NInf b = True"
| "float_le a NInf = False"

text \<open>\<^verbatim>\<open>max(xs, key=key)\<close> with float keys: the scan keeps its candidate unless the key of
  the next item is greater; \<^verbatim>\<open>ValueError\<close> on an empty sequence.\<close>

definition py_max :: "('a \<Rightarrow> pyfloat) \<Rightarrow> 'a list \<Rightarrow> py_error + 'a" where
  "py_max key xs =
     (case xs of
        [] \<Rightarrow> Inl ValueError
      | x # rest \<Rightarrow>
          Inr (foldl (\<lambda>best y. if float_lt (key best) (key y) then y else best) x rest))"

text \<open>A \<^verbatim>\<open>for\<close> loop whose body may raise: the first exception ends the loop.\<close>

fun for_each :: "('s \<Rightarrow> 'a \<Rightarrow> py_error + 's) \<Rightarrow> 's \<Rightarrow> 'a list \<Rightarrow> py_error + 's" where
  "for_each body st [] = Inr st"
| "for_each body st (x # xs) =
     (case body st x of Inl e \<Rightarrow> Inl e | Inr st' \<Rightarrow> for_each body st' xs)"

subsection \<open>\<^verbatim>\<open>find_peak_sales_day\<close>\<close>

text \<open>Step 1 (lines 341-352): the product of line 343 may raise, the additions do not.\<close>

definition daily_step ::
  "(real \<Rightarrow> real) \<Rightarrow> (string \<times> pyfloat \<times> nat) list \<Rightarrow> (pyfloat, 'a) transaction_scheme
     \<Rightarrow> py_error + (string \<times> pyfloat \<times> nat) list" where
  "daily_step rnd daily_totals tx =
     (let date = Date tx
      in case int_times_float rnd (Quantity tx) (UnitPrice tx) of
           Inl e \<Rightarrow> Inl e
         | Inr revenue \<Rightarrow>
             Inr (upsert date (Fin 0, 0) (\<lambda>(r, tc). (float_add rnd r revenue, tc + 1))
                    daily_totals))"

text \<open>Steps 2 and 3 (lines 355-365).\<close>

definition find_peak_sales_day ::
  "(real \<Rightarrow> real) \<Rightarrow> (pyfloat, 'a) transaction_scheme list
     \<Rightarrow> py_error + (string \<times> pyfloat \<times> nat)" where
  "find_peak_sales_day rnd transactions =
     (case for_each (daily_step rnd) [] transactions of
        Inl e \<Rightarrow> Inl e
      | Inr daily_totals \<Rightarrow>
          (case py_max (\<lambda>item. fst (snd item)) daily_totals of
             Inl e \<Rightarrow> Inl e
           | Inr peak_date \<Rightarrow>
               Inr (fst peak_date, fst (snd peak_date), snd (snd peak_date))))"

section \<open>Writer of the enriched file (api_handler.py)\<close>

subsection \<open>\<^verbatim>\<open>str(value)\<close> and \<^verbatim>\<open>sep.join(row)\<close>\<close>

text \<open>\<^verbatim>\<open>str\<close> of an \<^verbatim>\<open>int\<close>: its decimal digits, after a minus sign when it is negative.\<close>

definition digit_char :: "nat \<Rightarrow> char" where
  "digit_char d = ''0123456789'' ! d"

fun str_nat :: "nat \<Rightarrow> string" where
  "str_nat n = (if n < 10 then [digit_char n] else str_nat (n div 10) @ [digit_char (n mod 10)])"

declare str_nat.simps [simp del]

definition str_int :: "int \<Rightarrow> string" where
  "str_int i = (if i < 0 then CHR ''-'' # str_nat (nat (- i)) else str_nat (nat i))"

text \<open>\<^verbatim>\<open>str\<close> of a \<^verbatim>\<open>bool\<close>.\<close>

definition str_bool :: "bool \<Rightarrow> string" where
  "str_bool b = (if b then ''True'' else ''False'')"

fun join :: "string \<Rightarrow> string list \<Rightarrow> string" where
  "join sep [] = []"
| "join sep [x] = x"
| "join sep (x # y # ys) = x @ sep @ join sep (y # ys)"

subsection \<open>\<^verbatim>\<open>save_enriched_data\<close>\<close>

definition headers :: "string list" where
  "headers =
     [''TransactionID'', ''Date'', ''ProductID'', ''ProductName'',
      ''Quantity'', ''UnitPrice'', ''CustomerID'', ''Region'',
      ''API_Category'', ''API_Brand'', ''API_Rating'', ''API_Match'']"

text \<open>
  The inner loop (lines 145-148): for each header, \<^verbatim>\<open>tx.get(header)\<close> written as the empty
  string when it is \<^verbatim>\<open>None\<close> and as \<^verbatim>\<open>str(value)\<close> otherwise. \<^verbatim>\<open>str\<close> of a float is the
  interpreter's shortest decimal form of a binary float; it is the parameter
  \<open>str_float\<close> here.
\<close>

definition row_cells :: "(real \<Rightarrow> string) \<Rightarrow> real enriched_transaction \<Rightarrow> string list" where
  "row_cells str_float tx =
     [TransactionID tx, Date tx, ProductID tx, ProductName tx,
      str_int (Quantity tx), str_float (UnitPrice tx), CustomerID tx, Region tx,
      (case API_Category tx of None \<Rightarrow> [] | Some v \<Rightarrow> v),
      (case API_Brand tx of None \<Rightarrow> [] | Some v \<Rightarrow> v),
      (case API_Rating tx of None \<Rightarrow> [] | Some v \<Rightarrow> str_float v),
      str_bool (API_Match tx)]"

text \<open>
  The text the function writes to the file: the header line, then one line per transaction,
  each followed by a newline. (A failure of the file system, which the function reports and
  swallows, is not modelled.)
\<close>

definition save_enriched_data ::
  "(real \<Rightarrow> string) \<Rightarrow> real enriched_transaction list \<Rightarrow> string" where
  "save_enriched_data str_float enriched_transactions =
     foldl (\<lambda>file tx. file @ join ''|'' (row_cells str_float tx) @ [CHR 0x0A])
       (join ''|'' headers @ [CHR 0x0A]) enriched_transactions"

section \<open>Definitions used to state the properties\<close>

text \<open>The part of an enriched record that its source transaction already had.\<close>

definition original_fields :: "'f enriched_transaction \<Rightarrow> 'f valid_transaction" where
  "original_fields e =
     \<lparr>TransactionID = TransactionID e, Date = Date e, ProductID = ProductID e,
      ProductName = ProductName e, Quantity = Quantity e, UnitPrice = UnitPrice e,
      CustomerID = CustomerID e, Region = Region e, Amount = Amount e\<rparr>"

text \<open>The number a string of decimal digits denotes, most significant digit first.\<close>

definition numeral_value :: "string \<Rightarrow> nat" where
  "numeral_value ds = foldl (\<lambda>a c. 10 * a + digit_val c) 0 ds"

subsection \<open>Sample data\<close>

definition tx_P101 :: "real valid_transaction" where
  "tx_P101 = \<lparr>TransactionID = ''T1'', Date = ''2024-01-01'', ProductID = ''P101'',
     ProductName = ''Widget'', Quantity = 5, UnitPrice = 10, CustomerID = ''C1'',
     Region = ''North'', Amount = 50\<rparr>"

definition tx_P999 :: "real valid_transaction" where
  "tx_P999 = \<lparr>TransactionID = ''T2'', Date = ''2024-01-02'', ProductID = ''P999'',
     ProductName = ''Gadget'', Quantity = 1, UnitPrice = 3, CustomerID = ''C2'',
     Region = ''South'', Amount = 3\<rparr>"

definition tx_malformed :: "real valid_transaction" where
  "tx_malformed = \<lparr>TransactionID = ''T3'', Date = ''2024-01-02'', ProductID = ''PX7'',
     ProductName = ''Gizmo'', Quantity = 2, UnitPrice = 4, CustomerID = ''C3'',
     Region = ''East'', Amount = 8\<rparr>"

text \<open>A product identifier with the separator 0x1F before its digits.\<close>

definition tx_separator :: "real valid_transaction" where
  "tx_separator = \<lparr>TransactionID = ''T4'', Date = ''2024-01-03'',
     ProductID = [CHR ''P'', CHR 0x1F, CHR ''1'', CHR ''0'', CHR ''1''],
     ProductName = ''Widget'', Quantity = 1, UnitPrice = 10, CustomerID = ''C4'',
     Region = ''West'', Amount = 10\<rparr>"

definition catalog_1 :: "int \<rightharpoonup> real catalog_entry" where
  "catalog_1 = [1 \<mapsto> \<lparr>category = Some ''beauty'', brand = Some ''Essence'', rating = Some 4\<rparr>]"

subsection \<open>Validity as the specification words it\<close>

text \<open>
  All eight required fields non-empty (a number is empty when it is zero), positive quantity,
  positive unit price, and the three identifiers starting with \<^verbatim>\<open>T\<close>, \<^verbatim>\<open>P\<close> and \<^verbatim>\<open>C\<close>.
\<close>

definition first_char_is :: "char \<Rightarrow> string \<Rightarrow> bool" where
  "first_char_is c s = (case s of [] \<Rightarrow> False | x # _ \<Rightarrow> x = c)"

definition is_valid :: "real transaction \<Rightarrow> bool" where
  "is_valid tx =
     ((TransactionID tx \<noteq> [] \<and> Date tx \<noteq> [] \<and> ProductID tx \<noteq> [] \<and> ProductName tx \<noteq> []
       \<and> Quantity tx \<noteq> 0 \<and> UnitPrice tx \<noteq> 0 \<and> CustomerID tx \<noteq> [] \<and> Region tx \<noteq> [])
      \<and> Quantity tx > 0 \<and> UnitPrice tx > 0
      \<and> first_char_is CHR ''T'' (TransactionID tx)
      \<and> first_char_is CHR ''P'' (ProductID tx)
      \<and> first_char_is CHR ''C'' (CustomerID tx))"

definition attach_amount :: "real transaction \<Rightarrow> real valid_transaction" where
  "attach_amount tx = with_amount tx (of_int (Quantity tx) * UnitPrice tx)"

subsection \<open>Sample parsed transactions\<close>

definition raw_valid :: "real transaction" where
  "raw_valid = \<lparr>TransactionID = ''T1'', Date = ''2024-01-01'', ProductID = ''P101'',
     ProductName = ''Widget'', Quantity = 5, UnitPrice = 10, CustomerID = ''C1'',
     Region = ''North''\<rparr>"

definition raw_zero_quantity :: "real transaction" where
  "raw_zero_quantity = \<lparr>TransactionID = ''T2'', Date = ''2024-01-01'', ProductID = ''P102'',
     ProductName = ''Gadget'', Quantity = 0, UnitPrice = 10, CustomerID = ''C2'',
     Region = ''South''\<rparr>"

definition raw_zero_price :: "real transaction" where
  "raw_zero_price = \<lparr>TransactionID = ''T3'', Date = ''2024-01-02'', ProductID = ''P103'',
     ProductName = ''Gizmo'', Quantity = 2, UnitPrice = 0, CustomerID = ''C3'',
     Region = ''East''\<rparr>"

definition raw_south :: "real transaction" where
  "raw_south = \<lparr>TransactionID = ''T4'', Date = ''2024-01-03'', ProductID = ''P104'',
     ProductName = ''Doohickey'', Quantity = 3, UnitPrice = 7, CustomerID = ''C4'',
     Region = ''South''\<rparr>"

subsection \<open>Grouping as the specification words it\<close>

text \<open>The distinct elements of a list in the order of their first occurrence.\<close>

primrec first_seen :: "'a list \<Rightarrow> 'a list" where
  "first_seen [] = []"
| "first_seen (x # xs) = x # removeAll x (first_seen xs)"

text \<open>Group by a key: one entry per key, in the order the keys are first met, holding the
  fold of the update over the elements of that key, in input order.\<close>

definition group_fold ::
  "('t \<Rightarrow> 'k) \<Rightarrow> 'v \<Rightarrow> ('t \<Rightarrow> 'v \<Rightarrow> 'v) \<Rightarrow> 't list \<Rightarrow> ('k \<times> 'v) list" where
  "group_fold key init g ts =
     map (\<lambda>k. (k, foldl (\<lambda>v t. g t v) init (filter (\<lambda>t. key t = k) ts)))
       (first_seen (map key ts))"




subsection \<open>The aggregates of a date in double arithmetic\<close>

text \<open>An \<^verbatim>\<open>int\<close> that a float operation can take as an operand.\<close>

definition quantity_fits :: "int \<Rightarrow> bool" where
  "quantity_fits q = (\<bar>of_int q\<bar> < overflow_threshold)"

text \<open>The double \<^verbatim>\<open>Quantity * UnitPrice\<close> of a transaction whose quantity fits.\<close>

definition sale_value :: "(real \<Rightarrow> real) \<Rightarrow> (pyfloat, 'a) transaction_scheme \<Rightarrow> pyfloat" where
  "sale_value rnd tx = float_mul rnd (Fin (rnd (of_int (Quantity tx)))) (UnitPrice tx)"

text \<open>The revenue of a date: the sale values of its transactions added to 0.0 one after the
  other, in input order, each sum rounded; and the number of its transactions.\<close>

definition revenue_on ::
  "(real \<Rightarrow> real) \<Rightarrow> (pyfloat, 'a) transaction_scheme list \<Rightarrow> string \<Rightarrow> pyfloat" where
  "revenue_on rnd txs d =
     foldl (\<lambda>r tx. float_add rnd r (sale_value rnd tx)) (Fin 0) (filter (\<lambda>tx. Date tx = d) txs)"

definition count_on :: "('f, 'a) transaction_scheme list \<Rightarrow> string \<Rightarrow> nat" where
  "count_on txs d = length (filter (\<lambda>tx. Date tx = d) txs)"

subsection \<open>Sample sales\<close>

definition sample_tx :: "string \<Rightarrow> string \<Rightarrow> string \<Rightarrow> int \<Rightarrow> 'f \<Rightarrow> 'f transaction" where
  "sample_tx d p r q u =
     \<lparr>TransactionID = ''T1'', Date = d, ProductID = ''P101'', ProductName = p, Quantity = q,
      UnitPrice = u, CustomerID = ''C1'', Region = r\<rparr>"



text \<open>
  Sample sales in double arithmetic. Every product and sum of the first list is an integer
  far below \<open>2 ^ 53\<close>, where the rounding to a double leaves the number as it is.
\<close>

definition sample_round :: "real \<Rightarrow> real" where
  "sample_round x = x"

definition float_sales :: "pyfloat transaction list" where
  "float_sales =
     [sample_tx ''2024-01-02'' ''Widget'' ''North'' 5 (Fin 10),
      sample_tx ''2024-01-01'' ''Gadget'' ''South'' 5 (Fin 6),
      sample_tx ''2024-01-01'' ''Widget'' ''North'' 2 (Fin 10),
      sample_tx ''2024-01-03'' ''Gizmo'' ''East'' 5 (Fin 2)]"

text \<open>A unit price that is NaN, as \<^verbatim>\<open>float("nan")\<close> reads it from the text \<^verbatim>\<open>nan\<close>.\<close>

definition nan_sales :: "pyfloat transaction list" where
  "nan_sales =
     [sample_tx ''2024-01-01'' ''Widget'' ''North'' 1 NaN,
      sample_tx ''2024-01-02'' ''Gadget'' ''South'' 1 (Fin 5)]"

text \<open>A quantity of \<open>10 ^ 400\<close>, which \<^verbatim>\<open>int\<close> reads from a text of 401 digits.\<close>

definition huge_sale :: "pyfloat transaction list" where
  "huge_sale = [sample_tx ''2024-01-01'' ''Widget'' ''North'' (10 ^ 400) (Fin 1)]"
subsection \<open>Reading the enriched file back\<close>

text \<open>
  Modelled from the spec: the repository writes the enriched file and has no reader of it.
  The reader of this subsection follows sections 3, 6 and 8 of the specification.
\<close>

text \<open>\<^verbatim>\<open>s.split(c)\<close> for a one-character separator, as \<^verbatim>\<open>parse_transactions\<close> splits
  its lines: one more piece than there are separators.\<close>

fun split_on :: "char \<Rightarrow> string \<Rightarrow> string list" where
  "split_on c [] = [[]]"
| "split_on c (x # xs) =
     (if x = c then [] # split_on c xs
      else (case split_on c xs of [] \<Rightarrow> [[x]] | p # ps \<Rightarrow> (x # p) # ps))"

text \<open>The lines of a text, each ended by a newline.\<close>

definition file_lines :: "string \<Rightarrow> string list" where
  "file_lines text = butlast (split_on (CHR 0x0A) text)"

definition read_bool :: "string \<Rightarrow> bool option" where
  "read_bool s = (if s = ''True'' then Some True else if s = ''False'' then Some False else None)"

definition read_text :: "string \<Rightarrow> string option" where
  "read_text s = (if s = [] then None else Some s)"

definition read_rating :: "(string \<Rightarrow> real option) \<Rightarrow> string \<Rightarrow> real option option" where
  "read_rating read_float s =
     (if s = [] then Some None
      else (case read_float s of None \<Rightarrow> None | Some r \<Rightarrow> Some (Some r)))"

text \<open>
  Modelled from the spec: the reader of one row, absent from the repository. The round trip
  of section 8 re-parses the written rows, with the empty string read as null (section 6)
  and the text of \<^verbatim>\<open>API_Match\<close> read as a boolean; \<^verbatim>\<open>Amount\<close>, which is not written, is the
  derived field \<open>Quantity * UnitPrice\<close> (section 3). A row is split as
  \<^verbatim>\<open>parse_transactions\<close> splits its lines, \<^verbatim>\<open>Quantity\<close> is read by \<^verbatim>\<open>int\<close>, and floats are
  read by the parameter \<open>read_float\<close>.
\<close>

definition reparse_row ::
  "(string \<Rightarrow> real option) \<Rightarrow> string \<Rightarrow> real enriched_transaction option" where
  "reparse_row read_float line =
     (case split_on CHR ''|'' line of
        [tid, date, pid, pname, q, up, cid, region, cat, br, rt, mt] \<Rightarrow>
          (case py_int q of
             Inl _ \<Rightarrow> None
           | Inr quantity \<Rightarrow>
               (case read_float up of
                  None \<Rightarrow> None
                | Some unit_price \<Rightarrow>
                    (case read_rating read_float rt of
                       None \<Rightarrow> None
                     | Some api_rating \<Rightarrow>
                         (case read_bool mt of
                            None \<Rightarrow> None
                          | Some api_match \<Rightarrow>
                              Some \<lparr>TransactionID = tid, Date = date, ProductID = pid,
                                    ProductName = pname, Quantity = quantity,
                                    UnitPrice = unit_price, CustomerID = cid, Region = region,
                                    Amount = of_int quantity * unit_price,
                                    API_Category = read_text cat, API_Brand = read_text br,
                                    API_Rating = api_rating, API_Match = api_match\<rparr>))))
      | _ \<Rightarrow> None)"

text \<open>Modelled from the spec: the reader of the whole file, a header line of the twelve
  column names followed by the rows (section 6).\<close>

definition reparse ::
  "(string \<Rightarrow> real option) \<Rightarrow> string \<Rightarrow> real enriched_transaction list option" where
  "reparse read_float text =
     (case file_lines text of
        [] \<Rightarrow> None
      | header # rows \<Rightarrow>
          if split_on CHR ''|'' header = headers then those (map (reparse_row read_float) rows)
          else None)"

text \<open>
  What a record needs for the round trip: no cell holds the separator or a newline, no
  category or brand is the empty string (it would be read back as null), the texts of its
  floats read back as the floats, the text of a rating is not empty, and \<^verbatim>\<open>Amount\<close> is the
  derived field.
\<close>

definition writable ::
  "(real \<Rightarrow> string) \<Rightarrow> (string \<Rightarrow> real option) \<Rightarrow> real enriched_transaction \<Rightarrow> bool" where
  "writable str_float read_float tx =
     (list_all (\<lambda>cell. CHR ''|'' \<notin> set cell \<and> CHR 0x0A \<notin> set cell) (row_cells str_float tx)
      \<and> API_Category tx \<noteq> Some [] \<and> API_Brand tx \<noteq> Some []
      \<and> read_float (str_float (UnitPrice tx)) = Some (UnitPrice tx)
      \<and> (case API_Rating tx of
            None \<Rightarrow> True
          | Some r \<Rightarrow> str_float r \<noteq> [] \<and> read_float (str_float r) = Some r)
      \<and> Amount tx = of_int (Quantity tx) * UnitPrice tx)"

subsection \<open>Sample enriched records and float texts\<close>

definition enriched_null_brand :: "real enriched_transaction" where
  "enriched_null_brand = with_api tx_P101 (Some ''beauty'') None (Some 4) True"

definition enriched_empty_brand :: "real enriched_transaction" where
  "enriched_empty_brand = with_api tx_P101 (Some ''beauty'') (Some '''') (Some 4) True"

definition sample_str_float :: "real \<Rightarrow> string" where
  "sample_str_float x =
     (if x = 10 then ''10.0'' else if x = 4 then ''4.0'' else if x = 3 then ''3.0'' else ''0.0'')"

definition sample_read_float :: "string \<Rightarrow> real option" where
  "sample_read_float s =
     (if s = ''10.0'' then Some 10 else if s = ''4.0'' then Some 4
      else if s = ''3.0'' then Some 3 else if s = ''0.0'' then Some 0 else None)"

section \<open>Properties of the enricher\<close>

lemma enrich_foldl_map:
  "foldl (\<lambda>acc tx. acc @ [enrich_one tx m]) acc0 txs = acc0 @ map (\<lambda>tx. enrich_one tx m) txs"
  by (induction txs arbitrary: acc0) simp_all

lemma enrich_sales_data_map:
  "enrich_sales_data txs m = map (\<lambda>tx. enrich_one tx m) txs"
  by (simp add: enrich_sales_data_def enrich_foldl_map)

lemma original_fields_with_api: "original_fields (with_api tx c b r m) = tx"
  by (simp add: original_fields_def with_api_def)

lemma original_fields_enrich_one: "original_fields (enrich_one tx m) = tx"
  by (simp add: enrich_one_def enrich_try_def Let_def original_fields_with_api
      split: sum.splits option.splits)

text \<open>
  Claim C9. For every transaction list and every product mapping, \<^verbatim>\<open>enrich_sales_data\<close>
  returns a list of the same length as its input, one enriched record per input transaction
  in input order, and each enriched record carries the original fields of its source
  transaction unchanged: reading the original fields off the output gives back the input.
\<close>

theorem enrich_one_record_per_transaction:
  "length (enrich_sales_data txs m) = length txs
   \<and> map original_fields (enrich_sales_data txs m) = txs"
  by (simp add: enrich_sales_data_map comp_def original_fields_enrich_one)

subsection \<open>Well-formed product identifiers\<close>

lemma digit_not_space: "is_digit c \<Longrightarrow> \<not> is_space c"
  by (auto simp: is_digit_def is_space_def)

lemma strip_no_space:
  assumes "\<forall>c\<in>set s. \<not> is_space c"
  shows "strip s = s"
proof -
  have lead: "dropWhile is_space s = s"
    using assms by (cases s) auto
  have trail: "dropWhile is_space (rev s) = rev s"
    using assms by (cases "rev s") (auto dest: arg_cong[where f = set])
  show ?thesis
    by (simp add: strip_def lead trail)
qed

lemma py_digits_all_digits:
  "\<forall>c\<in>set ds. is_digit c \<Longrightarrow> prev \<or> ds \<noteq> [] \<Longrightarrow>
   py_digits prev acc ds = Some (foldl (\<lambda>a c. 10 * a + digit_val c) acc ds)"
  by (induction ds arbitrary: prev acc) auto

lemma str_remove_digits: "\<forall>c\<in>set ds. is_digit c \<Longrightarrow> str_remove CHR ''P'' ds = ds"
  by (induction ds) (auto simp: str_remove_def is_digit_def)

lemma py_int_digits:
  assumes "ds \<noteq> []" and "\<forall>c\<in>set ds. is_digit c"
  shows "py_int ds = Inr (int (numeral_value ds))"
proof -
  from assms obtain c cs where ds: "ds = c # cs"
    by (cases ds) auto
  have "is_digit c"
    using assms ds by simp
  then have sign: "c \<noteq> CHR ''-''" "c \<noteq> CHR ''+''"
    by (auto simp: is_digit_def)
  have stripped: "strip ds = ds"
    using assms by (simp add: strip_no_space digit_not_space)
  have "py_digits False 0 ds = Some (numeral_value ds)"
    unfolding numeral_value_def using assms by (intro py_digits_all_digits) auto
  then show ?thesis
    using sign stripped ds by (simp add: py_int_def)
qed

text \<open>
  Claim C1. For every transaction of the batch whose \<^verbatim>\<open>ProductID\<close> is the character
  \<^verbatim>\<open>P\<close> followed by a non-empty string \<open>ds\<close> of decimal digits, \<^verbatim>\<open>enrich_sales_data\<close>
  looks up the key \<open>numeral_value ds - 100\<close>: when the product mapping has that key, the
  enriched record has \<^verbatim>\<open>API_Category\<close>, \<^verbatim>\<open>API_Brand\<close> and \<^verbatim>\<open>API_Rating\<close> equal to the
  category, brand and rating of the mapped entry and \<^verbatim>\<open>API_Match = True\<close>; when it has
  not, the three fields are \<^verbatim>\<open>None\<close> and \<^verbatim>\<open>API_Match = False\<close>. Either way the record
  keeps the fields of its transaction.
\<close>

theorem enrich_lookup_key:
  assumes "i < length txs" and "ProductID (txs ! i) = CHR ''P'' # ds"
    and "ds \<noteq> []" and "\<forall>c\<in>set ds. is_digit c"
  shows "original_fields (enrich_sales_data txs m ! i) = txs ! i
     \<and> (case m (int (numeral_value ds) - 100) of
           Some entry \<Rightarrow>
             API_Category (enrich_sales_data txs m ! i) = category entry
             \<and> API_Brand (enrich_sales_data txs m ! i) = brand entry
             \<and> API_Rating (enrich_sales_data txs m ! i) = rating entry
             \<and> API_Match (enrich_sales_data txs m ! i) = True
         | None \<Rightarrow>
             API_Category (enrich_sales_data txs m ! i) = None
             \<and> API_Brand (enrich_sales_data txs m ! i) = None
             \<and> API_Rating (enrich_sales_data txs m ! i) = None
             \<and> API_Match (enrich_sales_data txs m ! i) = False)"
proof -
  have "\<not> is_digit CHR ''P''"
    by (simp add: is_digit_def)
  then have "str_remove CHR ''P'' (ProductID (txs ! i)) = ds"
    using assms(2,4) str_remove_digits[of ds] by (simp add: str_remove_def)
  then have parsed:
    "py_int (str_remove CHR ''P'' (ProductID (txs ! i))) = Inr (int (numeral_value ds))"
    using py_int_digits[OF assms(3,4)] by simp
  have out: "enrich_sales_data txs m ! i = enrich_one (txs ! i) m"
    using assms(1) by (simp add: enrich_sales_data_map)
  show ?thesis
  proof (cases "m (int (numeral_value ds) - 100)")
    case None
    then show ?thesis
      unfolding out
      by (simp add: original_fields_enrich_one)
        (simp add: enrich_one_def enrich_try_def parsed with_api_def)
  next
    case (Some entry)
    then show ?thesis
      unfolding out
      by (simp add: original_fields_enrich_one)
        (simp add: enrich_one_def enrich_try_def parsed with_api_def)
  qed
qed

text \<open>The two examples of the specification: \<^verbatim>\<open>P101\<close> against a catalog with ID 1, and
  \<^verbatim>\<open>P999\<close> against a catalog without ID 899.\<close>

theorem enrich_lookup_key_witness:
  "numeral_value ''101'' - 100 = 1
   \<and> catalog_1 1 = Some \<lparr>category = Some ''beauty'', brand = Some ''Essence'', rating = Some 4\<rparr>
   \<and> API_Category (enrich_sales_data [tx_P101, tx_P999] catalog_1 ! 0) = Some ''beauty''
   \<and> API_Brand (enrich_sales_data [tx_P101, tx_P999] catalog_1 ! 0) = Some ''Essence''
   \<and> API_Rating (enrich_sales_data [tx_P101, tx_P999] catalog_1 ! 0) = Some 4
   \<and> API_Match (enrich_sales_data [tx_P101, tx_P999] catalog_1 ! 0) = True
   \<and> original_fields (enrich_sales_data [tx_P101, tx_P999] catalog_1 ! 0) = tx_P101
   \<and> numeral_value ''999'' - 100 = 899 \<and> catalog_1 899 = None
   \<and> API_Category (enrich_sales_data [tx_P101, tx_P999] catalog_1 ! 1) = None
   \<and> API_Brand (enrich_sales_data [tx_P101, tx_P999] catalog_1 ! 1) = None
   \<and> API_Rating (enrich_sales_data [tx_P101, tx_P999] catalog_1 ! 1) = None
   \<and> API_Match (enrich_sales_data [tx_P101, tx_P999] catalog_1 ! 1) = False
   \<and> original_fields (enrich_sales_data [tx_P101, tx_P999] catalog_1 ! 1) = tx_P999"
  using enrich_lookup_key[of 0 "[tx_P101, tx_P999]" "''101''" catalog_1]
    enrich_lookup_key[of 1 "[tx_P101, tx_P999]" "''999''" catalog_1]
  by (simp add: tx_P101_def tx_P999_def catalog_1_def is_digit_def numeral_value_def
      digit_val_def)

text \<open>
  Claim C8. When \<^verbatim>\<open>int\<close> raises on the \<^verbatim>\<open>ProductID\<close> of a transaction (after the removal
  of \<^verbatim>\<open>P\<close>), the \<^verbatim>\<open>try\<close> block raises and the handler produces a record with
  \<^verbatim>\<open>API_Category\<close>, \<^verbatim>\<open>API_Brand\<close> and \<^verbatim>\<open>API_Rating\<close> all \<^verbatim>\<open>None\<close>, \<^verbatim>\<open>API_Match = False\<close>
  and the fields of the transaction: the record of a no-match, the one the same transaction
  gets from a catalog that has no entry. The transactions before and after it in the batch
  are enriched as they would be without it. Every raise of the loop body is a branch of
  \<open>enrich_try\<close> that \<open>enrich_one\<close> handles, so \<open>enrich_sales_data\<close> returns a list on
  every input.
\<close>

theorem enrich_malformed_is_no_match:
  assumes "py_int (str_remove CHR ''P'' (ProductID tx)) = Inl ValueError"
  shows "enrich_try tx m = Inl ValueError
     \<and> API_Category (enrich_one tx m) = None
     \<and> API_Brand (enrich_one tx m) = None
     \<and> API_Rating (enrich_one tx m) = None
     \<and> API_Match (enrich_one tx m) = False
     \<and> original_fields (enrich_one tx m) = tx
     \<and> enrich_one tx m = enrich_one tx Map.empty
     \<and> enrich_sales_data (before @ tx # after) m =
         enrich_sales_data before m @ enrich_one tx m # enrich_sales_data after m"
  using assms
  by (simp add: original_fields_enrich_one enrich_sales_data_map)
    (simp add: enrich_one_def enrich_try_def with_api_def)

text \<open>Two malformed identifiers, \<^verbatim>\<open>PX7\<close> and \<^verbatim>\<open>P\<close> followed by the separator 0x1F and
  \<^verbatim>\<open>101\<close>, in a batch with the two well-formed ones.\<close>

theorem enrich_malformed_is_no_match_witness:
  "py_int (str_remove CHR ''P'' (ProductID tx_malformed)) = Inl ValueError
   \<and> py_int (str_remove CHR ''P'' (ProductID tx_separator)) = Inl ValueError
   \<and> map API_Match (enrich_sales_data [tx_P101, tx_malformed, tx_separator, tx_P999] catalog_1)
       = [True, False, False, False]
   \<and> map API_Category (enrich_sales_data [tx_P101, tx_malformed, tx_separator, tx_P999] catalog_1)
       = [Some ''beauty'', None, None, None]
   \<and> map API_Brand (enrich_sales_data [tx_P101, tx_malformed, tx_separator, tx_P999] catalog_1)
       = [Some ''Essence'', None, None, None]
   \<and> map API_Rating (enrich_sales_data [tx_P101, tx_malformed, tx_separator, tx_P999] catalog_1)
       = [Some 4, None, None, None]"
proof -
  have h: "py_int (str_remove CHR ''P'' (ProductID tx_malformed)) = Inl ValueError"
    by (simp add: tx_malformed_def str_remove_def py_int_def strip_def is_space_def
        is_digit_def)
  have h': "py_int (str_remove CHR ''P'' (ProductID tx_separator)) = Inl ValueError"
    by (simp add: tx_separator_def str_remove_def py_int_def strip_def is_space_def
        is_digit_def)
  have first: "API_Match (enrich_one tx_P101 catalog_1) = True
      \<and> API_Category (enrich_one tx_P101 catalog_1) = Some ''beauty''
      \<and> API_Brand (enrich_one tx_P101 catalog_1) = Some ''Essence''
      \<and> API_Rating (enrich_one tx_P101 catalog_1) = Some 4"
    by (simp add: enrich_one_def enrich_try_def tx_P101_def catalog_1_def with_api_def
        str_remove_def py_int_def strip_def is_space_def is_digit_def digit_val_def)
  have last: "API_Match (enrich_one tx_P999 catalog_1) = False
      \<and> API_Category (enrich_one tx_P999 catalog_1) = None
      \<and> API_Brand (enrich_one tx_P999 catalog_1) = None
      \<and> API_Rating (enrich_one tx_P999 catalog_1) = None"
    by (simp add: enrich_one_def enrich_try_def tx_P999_def catalog_1_def with_api_def
        str_remove_def py_int_def strip_def is_space_def is_digit_def digit_val_def)
  have batch: "enrich_sales_data [tx_P101, tx_malformed, tx_separator, tx_P999] catalog_1 =
      [enrich_one tx_P101 catalog_1, enrich_one tx_malformed catalog_1,
       enrich_one tx_separator catalog_1, enrich_one tx_P999 catalog_1]"
    by (simp add: enrich_sales_data_map)
  have second: "API_Match (enrich_one tx_malformed catalog_1) = False
      \<and> API_Category (enrich_one tx_malformed catalog_1) = None
      \<and> API_Brand (enrich_one tx_malformed catalog_1) = None
      \<and> API_Rating (enrich_one tx_malformed catalog_1) = None"
    using enrich_malformed_is_no_match[OF h, of catalog_1 "[tx_P101]" "[tx_separator, tx_P999]"]
    by blast
  have third: "API_Match (enrich_one tx_separator catalog_1) = False
      \<and> API_Category (enrich_one tx_separator catalog_1) = None
      \<and> API_Brand (enrich_one tx_separator catalog_1) = None
      \<and> API_Rating (enrich_one tx_separator catalog_1) = None"
    using enrich_malformed_is_no_match[OF h', of catalog_1 "[tx_P101, tx_malformed]" "[tx_P999]"]
    by blast
  show ?thesis
    using h h' first second third last by (simp add: batch)
qed

section \<open>Properties of the validator\<close>

lemma startswith_char: "startswith s [c] = first_char_is c s"
  by (cases s) (auto simp: startswith_def first_char_is_def)

lemma accepted_iff_valid: "(has_required_fields tx \<and> \<not> breaks_rules tx) = is_valid tx"
  by (auto simp: has_required_fields_def breaks_rules_def is_valid_def startswith_char)

lemma validate_step_valid:
  "validate_step (vs, n) tx =
     (if is_valid tx then (vs @ [attach_amount tx], n) else (vs, n + 1))"
  using accepted_iff_valid[of tx] by (auto simp: validate_step_def attach_amount_def)

lemma validation_loop:
  "foldl validate_step (vs, n) txs =
     (vs @ map attach_amount (filter is_valid txs), n + length (filter (\<lambda>tx. \<not> is_valid tx) txs))"
  by (induction txs arbitrary: vs n) (simp_all add: validate_step_valid)

lemma validate_no_filter:
  "validate_and_filter txs None None None =
     (map attach_amount (filter is_valid txs), length (filter (\<lambda>tx. \<not> is_valid tx) txs),
      \<lparr>total_input = length txs, invalid = length (filter (\<lambda>tx. \<not> is_valid tx) txs),
       filtered_by_region = 0, filtered_by_amount = 0,
       final_count = length (filter is_valid txs)\<rparr>)"
  by (simp add: validate_and_filter_def validation_loop)


lemma sample_valid: "is_valid raw_valid" "is_valid raw_south"
  "\<not> is_valid raw_zero_quantity" "\<not> is_valid raw_zero_price"
  by (simp_all add: is_valid_def first_char_is_def raw_valid_def raw_south_def
      raw_zero_quantity_def raw_zero_price_def)






section \<open>The grouping loops compute the groups of the specification\<close>

lemma first_seen_set [simp]: "set (first_seen xs) = set xs"
  by (induction xs) auto

lemma first_seen_distinct [simp]: "distinct (first_seen xs)"
  by (induction xs) (auto simp: distinct_removeAll)

lemma first_seen_snoc:
  "first_seen (xs @ [x]) = (if x \<in> set xs then first_seen xs else first_seen xs @ [x])"
  by (induction xs) auto

lemma upsert_map:
  "distinct ks \<Longrightarrow>
   upsert k init f (map (\<lambda>k. (k, h k)) ks) =
     (if k \<in> set ks then map (\<lambda>k'. (k', if k' = k then f (h k) else h k')) ks
      else map (\<lambda>k. (k, h k)) ks @ [(k, f init)])"
  by (induction ks) auto

lemma group_fold_snoc:
  "group_fold key init g (ts @ [t]) = upsert (key t) init (g t) (group_fold key init g ts)"
  unfolding group_fold_def
proof -
  have none: "filter (\<lambda>u. key u = key t) ts = []" if "key t \<notin> key ` set ts"
    using that by (induction ts) auto
  show "map (\<lambda>k. (k, foldl (\<lambda>v t. g t v) init (filter (\<lambda>t. key t = k) (ts @ [t]))))
          (first_seen (map key (ts @ [t]))) =
        upsert (key t) init (g t)
          (map (\<lambda>k. (k, foldl (\<lambda>v t. g t v) init (filter (\<lambda>t. key t = k) ts)))
             (first_seen (map key ts)))"
    by (subst upsert_map) (auto simp: first_seen_snoc none)
qed

lemma foldl_upsert_group:
  "foldl (\<lambda>d t. upsert (key t) init (g t) d) [] ts = group_fold key init g ts"
proof (induction ts rule: rev_induct)
  case Nil
  show ?case by (simp add: group_fold_def)
next
  case (snoc t ts)
  then show ?case by (simp add: group_fold_snoc)
qed




lemma takeWhile_removeAll:
  "P x \<Longrightarrow> takeWhile P (removeAll x ys) = removeAll x (takeWhile P ys)"
  by (induction ys) auto

lemma first_seen_before:
  "set (takeWhile (\<lambda>y. y \<noteq> d) (first_seen xs)) = set (takeWhile (\<lambda>y. y \<noteq> d) xs)"
  by (induction xs) (auto simp: takeWhile_removeAll)


section \<open>Properties of the product ranking\<close>








section \<open>Properties of the writer of the enriched file\<close>

lemma digit_char_props:
  assumes "d < 10"
  shows "is_digit (digit_char d)" and "digit_val (digit_char d) = d"
proof -
  show "is_digit (digit_char d)"
    unfolding is_digit_def digit_char_def using assms by (intro nth_mem) simp
  from assms have "d \<in> {0, 1, 2, 3, 4, 5, 6, 7, 8, 9}"
    by auto
  then show "digit_val (digit_char d) = d"
    by (auto simp: digit_val_def digit_char_def)
qed

lemma str_nat_digits: "str_nat n \<noteq> [] \<and> (\<forall>c\<in>set (str_nat n). is_digit c)"
proof (induction n rule: str_nat.induct)
  case (1 n)
  show ?case
  proof (cases "n < 10")
    case True
    then show ?thesis
      by (simp add: str_nat.simps[of n] digit_char_props)
  next
    case False
    with 1 show ?thesis
      by (simp add: str_nat.simps[of n] digit_char_props)
  qed
qed

lemma numeral_value_snoc:
  "numeral_value (ds @ [c]) = 10 * numeral_value ds + digit_val c"
  by (simp add: numeral_value_def)

lemma numeral_value_str_nat: "numeral_value (str_nat n) = n"
proof (induction n rule: str_nat.induct)
  case (1 n)
  show ?case
  proof (cases "n < 10")
    case True
    then show ?thesis
      by (simp add: str_nat.simps[of n] numeral_value_def digit_char_props)
  next
    case False
    with 1 show ?thesis
      by (simp add: str_nat.simps[of n] numeral_value_snoc digit_char_props)
  qed
qed

lemma py_int_str_int: "py_int (str_int i) = Inr i"
proof (cases "i < 0")
  case False
  then show ?thesis
    using py_int_digits[of "str_nat (nat i)"] str_nat_digits[of "nat i"]
    by (simp add: str_int_def numeral_value_str_nat)
next
  case True
  define ds where "ds = str_nat (nat (- i))"
  have ds: "ds \<noteq> []" "\<forall>c\<in>set ds. is_digit c"
    using str_nat_digits[of "nat (- i)"] by (simp_all add: ds_def)
  have "\<forall>c\<in>set (CHR ''-'' # ds). \<not> is_space c"
    using ds by (auto simp: digit_not_space) (simp add: is_space_def)
  then have "strip (CHR ''-'' # ds) = CHR ''-'' # ds"
    by (rule strip_no_space)
  moreover have "py_digits False 0 ds = Some (nat (- i))"
    using py_digits_all_digits[of ds False 0] ds numeral_value_str_nat[of "nat (- i)"]
    by (simp add: numeral_value_def ds_def)
  ultimately show ?thesis
    using True by (simp add: py_int_def str_int_def ds_def[symmetric])
qed


lemma read_bool_str_bool: "read_bool (str_bool b) = Some b"
  by (simp add: read_bool_def str_bool_def)

lemma split_on_nonempty: "split_on c s \<noteq> []"
  by (induction s) (auto split: list.splits)

lemma split_on_no_sep: "c \<notin> set x \<Longrightarrow> split_on c x = [x]"
  by (induction x) auto

lemma split_on_append_sep: "c \<notin> set x \<Longrightarrow> split_on c (x @ c # rest) = x # split_on c rest"
  by (induction x) auto

lemma split_on_join:
  "cells \<noteq> [] \<Longrightarrow> \<forall>cell\<in>set cells. c \<notin> set cell \<Longrightarrow> split_on c (join [c] cells) = cells"
  by (induction "[c]" cells rule: join.induct) (simp_all add: split_on_no_sep split_on_append_sep)

lemma set_join: "set (join sep cells) \<subseteq> set sep \<union> \<Union> (set ` set cells)"
  by (induction sep cells rule: join.induct) auto

lemma split_on_lines:
  "\<forall>l\<in>set ls. c \<notin> set l \<Longrightarrow> split_on c (concat (map (\<lambda>l. l @ [c]) ls)) = ls @ [[]]"
  by (induction ls) (simp_all add: split_on_append_sep)

lemma save_enriched_data_lines:
  "save_enriched_data str_float es =
     concat (map (\<lambda>l. l @ [CHR 0x0A])
       (join ''|'' headers # map (\<lambda>tx. join ''|'' (row_cells str_float tx)) es))"
proof -
  have "foldl (\<lambda>file tx. file @ join ''|'' (row_cells str_float tx) @ [CHR 0x0A]) file0 es =
      file0 @ concat (map (\<lambda>l. l @ [CHR 0x0A]) (map (\<lambda>tx. join ''|'' (row_cells str_float tx)) es))"
    for file0
    by (induction es arbitrary: file0) simp_all
  then show ?thesis
    by (simp add: save_enriched_data_def)
qed


lemma file_lines_save:
  assumes "\<forall>tx\<in>set es. \<forall>cell\<in>set (row_cells str_float tx). CHR 0x0A \<notin> set cell"
  shows "file_lines (save_enriched_data str_float es) =
     join ''|'' headers # map (\<lambda>tx. join ''|'' (row_cells str_float tx)) es"
proof -
  have header: "CHR 0x0A \<notin> set (join ''|'' headers)"
    by (simp add: headers_def)
  have row: "CHR 0x0A \<notin> set (join ''|'' (row_cells str_float tx))" if "tx \<in> set es" for tx
    using set_join[of "''|''" "row_cells str_float tx"] assms that by auto
  have "\<forall>l\<in>set (join ''|'' headers # map (\<lambda>tx. join ''|'' (row_cells str_float tx)) es).
      CHR 0x0A \<notin> set l"
    using header row by auto
  then show ?thesis
    unfolding file_lines_def save_enriched_data_lines by (subst split_on_lines) simp_all
qed

lemma reparse_row_written:
  assumes "writable str_float read_float tx"
  shows "reparse_row read_float (join ''|'' (row_cells str_float tx)) = Some tx"
proof -
  have "\<forall>cell\<in>set (row_cells str_float tx). CHR ''|'' \<notin> set cell"
    using assms by (simp add: writable_def list_all_iff)
  moreover have "row_cells str_float tx \<noteq> []"
    by (simp add: row_cells_def)
  ultimately have split: "split_on CHR ''|'' (join ''|'' (row_cells str_float tx)) = row_cells str_float tx"
    using split_on_join[of "row_cells str_float tx" "CHR ''|''"] by simp
  have category: "read_text (case API_Category tx of None \<Rightarrow> [] | Some v \<Rightarrow> v) = API_Category tx"
    using assms by (cases "API_Category tx") (simp_all add: writable_def read_text_def)
  have brand: "read_text (case API_Brand tx of None \<Rightarrow> [] | Some v \<Rightarrow> v) = API_Brand tx"
    using assms by (cases "API_Brand tx") (simp_all add: writable_def read_text_def)
  have rating: "read_rating read_float (case API_Rating tx of None \<Rightarrow> [] | Some v \<Rightarrow> str_float v)
      = Some (API_Rating tx)"
    using assms by (cases "API_Rating tx") (simp_all add: writable_def read_rating_def)
  have price: "read_float (str_float (UnitPrice tx)) = Some (UnitPrice tx)"
    and amount: "Amount tx = of_int (Quantity tx) * UnitPrice tx"
    using assms by (simp_all add: writable_def)
  show ?thesis
    unfolding reparse_row_def split
    by (simp add: row_cells_def py_int_str_int category brand rating price read_bool_str_bool
        amount[symmetric])
qed

lemma those_map_Some: "\<forall>x\<in>set xs. f (g x) = Some x \<Longrightarrow> those (map (\<lambda>x. f (g x)) xs) = Some xs"
  by (induction xs) simp_all

lemma split_headers: "split_on CHR ''|'' (join ''|'' headers) = headers"
  by (simp add: headers_def)

text \<open>
  Claim C5, amended. \<^verbatim>\<open>save_enriched_data\<close> writes the header line and one line per
  record, the twelve cells of a line joined by \<^verbatim>\<open>|\<close>, a null written as the empty string and
  \<^verbatim>\<open>API_Match\<close> as \<^verbatim>\<open>True\<close> or \<^verbatim>\<open>False\<close>. For every list of records that are
  \<open>writable\<close> (no cell holds \<^verbatim>\<open>|\<close> or a newline, no category or brand is the empty
  string, the float texts read back as the floats, \<^verbatim>\<open>Amount\<close> is
  \<open>Quantity * UnitPrice\<close>), reading the written text back gives the same list of records,
  field for field.
\<close>

theorem written_file_reads_back:
  assumes "\<forall>tx\<in>set es. writable str_float read_float tx"
  shows "file_lines (save_enriched_data str_float es) =
       join ''|'' headers # map (\<lambda>tx. join ''|'' (row_cells str_float tx)) es
     \<and> reparse read_float (save_enriched_data str_float es) = Some es"
proof -
  have "\<forall>tx\<in>set es. \<forall>cell\<in>set (row_cells str_float tx). CHR 0x0A \<notin> set cell"
    using assms by (simp add: writable_def list_all_iff)
  then have lines: "file_lines (save_enriched_data str_float es) =
       join ''|'' headers # map (\<lambda>tx. join ''|'' (row_cells str_float tx)) es"
    by (rule file_lines_save)
  have "those (map (\<lambda>tx. reparse_row read_float (join ''|'' (row_cells str_float tx))) es) = Some es"
    using assms by (intro those_map_Some) (simp add: reparse_row_written)
  then show ?thesis
    by (simp add: reparse_def lines split_headers comp_def)
qed

lemma sample_writable:
  "writable sample_str_float sample_read_float enriched_null_brand"
  "writable sample_str_float sample_read_float (with_api tx_P999 None None None False)"
  by (simp_all add: writable_def row_cells_def enriched_null_brand_def with_api_def tx_P101_def
      tx_P999_def sample_str_float_def sample_read_float_def str_int_def str_nat.simps
      digit_char_def str_bool_def)

theorem written_file_reads_back_witness:
  "writable sample_str_float sample_read_float enriched_null_brand
   \<and> writable sample_str_float sample_read_float (with_api tx_P999 None None None False)
   \<and> reparse sample_read_float
        (save_enriched_data sample_str_float
           [enriched_null_brand, with_api tx_P999 None None None False])
      = Some [enriched_null_brand, with_api tx_P999 None None None False]"
  using written_file_reads_back[of "[enriched_null_brand, with_api tx_P999 None None None False]"
      sample_str_float sample_read_float]
  by (simp add: sample_writable)

text \<open>
  The claim as stated fails: a record whose \<^verbatim>\<open>API_Brand\<close> is null and the record that
  differs from it only in having the empty string there are written as the same text,
  whatever the text of a float is, so no reader gives back both.
\<close>

theorem null_and_empty_text_collide_counterexample:
  "enriched_null_brand \<noteq> enriched_empty_brand
   \<and> (\<forall>str_float. save_enriched_data str_float [enriched_null_brand] =
         save_enriched_data str_float [enriched_empty_brand])"
  by (simp add: save_enriched_data_def row_cells_def enriched_null_brand_def
      enriched_empty_brand_def with_api_def)

section \<open>The peak sales day\<close>

subsection \<open>The loop of \<^verbatim>\<open>find_peak_sales_day\<close>\<close>

text \<open>
  The product of line 343 raises exactly when the quantity does not fit a double; otherwise
  the loop builds, in the order the dates are first met, the revenue and the count of each
  date.
\<close>
lemma int_times_float_fits:
  "int_times_float rnd q x =
     (if quantity_fits q then Inr (float_mul rnd (Fin (rnd (of_int q))) x)
      else Inl OverflowError)"
  by (simp add: int_times_float_def int_to_float_def quantity_fits_def not_less)

lemma daily_step_fits:
  "daily_step rnd d tx =
     (if quantity_fits (Quantity tx)
      then Inr (upsert (Date tx) (Fin 0, 0)
                  (\<lambda>v. case v of (r, c) \<Rightarrow> (float_add rnd r (sale_value rnd tx), Suc c)) d)
      else Inl OverflowError)"
  by (simp add: daily_step_def int_times_float_fits sale_value_def Let_def)

lemma daily_loop:
  "for_each (daily_step rnd) d txs =
     (if list_all (\<lambda>tx. quantity_fits (Quantity tx)) txs
      then Inr (foldl (\<lambda>d tx. upsert (Date tx) (Fin 0, 0)
                  (\<lambda>v. case v of (r, c) \<Rightarrow> (float_add rnd r (sale_value rnd tx), Suc c)) d)
                  d txs)
      else Inl OverflowError)"
  by (induction txs arbitrary: d) (simp_all add: daily_step_fits)

lemma foldl_with_count:
  "foldl (\<lambda>v t. case v of (r, c) \<Rightarrow> (g r t, Suc c)) (r0, c0) ts = (foldl g r0 ts, c0 + length ts)"
  by (induction ts arbitrary: r0 c0) simp_all

lemma daily_totals_grouped:
  "foldl (\<lambda>d tx. upsert (Date tx) (Fin 0, 0)
            (\<lambda>v. case v of (r, c) \<Rightarrow> (float_add rnd r (sale_value rnd tx), Suc c)) d) [] txs =
     map (\<lambda>d. (d, revenue_on rnd txs d, count_on txs d)) (first_seen (map Date txs))"
proof -
  have "foldl (\<lambda>d tx. upsert (Date tx) (Fin 0, 0)
            (\<lambda>v. case v of (r, c) \<Rightarrow> (float_add rnd r (sale_value rnd tx), Suc c)) d) [] txs =
      group_fold Date (Fin 0, 0)
        (\<lambda>tx v. case v of (r, c) \<Rightarrow> (float_add rnd r (sale_value rnd tx), Suc c)) txs"
    by (rule foldl_upsert_group)
  also have "\<dots> = map (\<lambda>d. (d, revenue_on rnd txs d, count_on txs d)) (first_seen (map Date txs))"
    by (simp add: group_fold_def revenue_on_def count_on_def
        foldl_with_count[where g = "\<lambda>r tx. float_add rnd r (sale_value rnd tx)"])
  finally show ?thesis .
qed

subsection \<open>The order of the doubles and \<^verbatim>\<open>max\<close>\<close>

text \<open>Away from NaN the comparisons are those of a linear order, and the scan of
  \<^verbatim>\<open>max\<close> returns the first item of greatest key.\<close>

lemma float_lt_irrefl: "\<not> float_lt a a"
  by (cases a) simp_all

lemma float_lt_le: "float_lt a b \<Longrightarrow> float_le a b"
  by (cases a; cases b) simp_all

lemma float_not_lt_le: "a \<noteq> NaN \<Longrightarrow> b \<noteq> NaN \<Longrightarrow> \<not> float_lt a b \<Longrightarrow> float_le b a"
  by (cases a; cases b) simp_all

lemma float_le_refl: "a \<noteq> NaN \<Longrightarrow> float_le a a"
  by (cases a) simp_all

lemma float_le_trans: "float_le a b \<Longrightarrow> float_le b c \<Longrightarrow> float_le a c"
  by (cases a; cases b; cases c) simp_all

lemma float_le_lt_trans: "float_le a b \<Longrightarrow> float_lt b c \<Longrightarrow> float_lt a c"
  by (cases a; cases b; cases c) simp_all

lemma float_lt_trans: "float_lt a b \<Longrightarrow> float_lt b c \<Longrightarrow> float_lt a c"
  by (cases a; cases b; cases c) simp_all

lemma float_le_NaN: "\<not> float_le a NaN" "\<not> float_le NaN a"
  by (cases a; simp)+

lemma max_scan:
  fixes key :: "'a \<Rightarrow> pyfloat"
  defines "step \<equiv> (\<lambda>best y. if float_lt (key best) (key y) then y else best)"
  assumes "key b \<noteq> NaN" and "\<forall>y\<in>set ys. key y \<noteq> NaN"
  shows "(foldl step b ys = b \<and> (\<forall>y\<in>set ys. float_le (key y) (key b)))
       \<or> (float_lt (key b) (key (foldl step b ys)) \<and> foldl step b ys \<in> set ys
           \<and> (\<forall>y\<in>set ys. float_le (key y) (key (foldl step b ys)))
           \<and> (\<forall>y\<in>set (takeWhile (\<lambda>y. y \<noteq> foldl step b ys) ys).
                 float_lt (key y) (key (foldl step b ys))))"
  using assms(2,3)
proof (induction ys arbitrary: b)
  case Nil
  show ?case by simp
next
  case (Cons y ys)
  then have nan: "key b \<noteq> NaN" "key y \<noteq> NaN" "\<forall>z\<in>set ys. key z \<noteq> NaN"
    by simp_all
  show ?case
  proof (cases "float_lt (key b) (key y)")
    case True
    then have eq: "foldl step b (y # ys) = foldl step y ys"
      by (simp add: step_def)
    from Cons.IH[OF nan(2,3)] show ?thesis
    proof (elim disjE conjE)
      assume same: "foldl step y ys = y" and le: "\<forall>z\<in>set ys. float_le (key z) (key y)"
      show ?thesis
        unfolding eq same using True le nan by (auto intro: float_le_refl)
    next
      assume lt: "float_lt (key y) (key (foldl step y ys))"
        and mem: "foldl step y ys \<in> set ys"
        and le: "\<forall>z\<in>set ys. float_le (key z) (key (foldl step y ys))"
        and first: "\<forall>z\<in>set (takeWhile (\<lambda>z. z \<noteq> foldl step y ys) ys).
            float_lt (key z) (key (foldl step y ys))"
      have "y \<noteq> foldl step y ys"
        using lt float_lt_irrefl by metis
      then show ?thesis
        unfolding eq using True lt mem le first
        by (auto intro: float_lt_trans float_lt_le)
    qed
  next
    case False
    then have eq: "foldl step b (y # ys) = foldl step b ys"
      by (simp add: step_def)
    have yb: "float_le (key y) (key b)"
      using False nan by (intro float_not_lt_le) simp_all
    from Cons.IH[OF nan(1,3)] show ?thesis
    proof (elim disjE conjE)
      assume same: "foldl step b ys = b" and le: "\<forall>z\<in>set ys. float_le (key z) (key b)"
      show ?thesis
        unfolding eq same using yb le by auto
    next
      assume lt: "float_lt (key b) (key (foldl step b ys))"
        and mem: "foldl step b ys \<in> set ys"
        and le: "\<forall>z\<in>set ys. float_le (key z) (key (foldl step b ys))"
        and first: "\<forall>z\<in>set (takeWhile (\<lambda>z. z \<noteq> foldl step b ys) ys).
            float_lt (key z) (key (foldl step b ys))"
      have ylt: "float_lt (key y) (key (foldl step b ys))"
        using yb lt by (rule float_le_lt_trans)
      then have "y \<noteq> foldl step b ys"
        using float_lt_irrefl by metis
      then show ?thesis
        unfolding eq using ylt lt mem le first
        by (auto intro: float_lt_le)
    qed
  qed
qed

lemma py_max_first_greatest:
  fixes key :: "'a \<Rightarrow> pyfloat"
  assumes "py_max key xs = Inr m" and "\<forall>y\<in>set xs. key y \<noteq> NaN"
  shows "m \<in> set xs \<and> (\<forall>y\<in>set xs. float_le (key y) (key m))
     \<and> (\<forall>y\<in>set (takeWhile (\<lambda>y. y \<noteq> m) xs). float_lt (key y) (key m))"
proof -
  from assms(1) obtain x rest where xs: "xs = x # rest"
    and m: "m = foldl (\<lambda>best y. if float_lt (key best) (key y) then y else best) x rest"
    by (auto simp: py_max_def split: list.splits)
  have nan: "key x \<noteq> NaN" "\<forall>y\<in>set rest. key y \<noteq> NaN"
    using assms(2) xs by simp_all
  from max_scan[OF nan] show ?thesis
    unfolding xs m[symmetric] using nan(1)
    by (elim disjE) (auto intro: float_le_refl float_lt_le)
qed


lemma find_peak_py_max:
  "find_peak_sales_day rnd txs =
     (if list_all (\<lambda>tx. quantity_fits (Quantity tx)) txs
      then py_max (\<lambda>item. fst (snd item))
             (map (\<lambda>d. (d, revenue_on rnd txs d, count_on txs d)) (first_seen (map Date txs)))
      else Inl OverflowError)"
  by (simp add: find_peak_sales_day_def daily_loop daily_totals_grouped split: sum.splits)

lemma py_max_cases:
  "(py_max key xs = Inl ValueError) = (xs = [])"
  "py_max key xs \<noteq> Inl OverflowError"
  "(\<exists>m. py_max key xs = Inr m) = (xs \<noteq> [])"
  by (cases xs; simp add: py_max_def)+

subsection \<open>When \<^verbatim>\<open>find_peak_sales_day\<close> returns\<close>

text \<open>
  Claim C10, amended. \<^verbatim>\<open>find_peak_sales_day\<close> raises \<^verbatim>\<open>ValueError\<close> exactly on the empty
  list, where \<^verbatim>\<open>max\<close> is taken over an empty mapping. On a non-empty list it raises
  \<^verbatim>\<open>OverflowError\<close> exactly when some quantity is too large an \<^verbatim>\<open>int\<close> to be converted
  to a float for the product of line 343, and returns a triple otherwise. The validator
  passes an empty list on when its only transaction is invalid.
\<close>

theorem find_peak_fails_exactly_on_empty:
  "(find_peak_sales_day rnd txs = Inl ValueError) = (txs = [])
   \<and> (find_peak_sales_day rnd txs = Inl OverflowError)
       = (\<not> list_all (\<lambda>tx. quantity_fits (Quantity tx)) txs)
   \<and> (\<exists>res. find_peak_sales_day rnd txs = Inr res)
       = (txs \<noteq> [] \<and> list_all (\<lambda>tx. quantity_fits (Quantity tx)) txs)
   \<and> fst (validate_and_filter [raw_zero_quantity] None None None) = []"
proof -
  define items where
    "items = map (\<lambda>d. (d, revenue_on rnd txs d, count_on txs d)) (first_seen (map Date txs))"
  have empty: "(items = []) = (txs = [])"
    by (cases txs) (simp_all add: items_def)
  have peak: "find_peak_sales_day rnd txs =
      (if list_all (\<lambda>tx. quantity_fits (Quantity tx)) txs
       then py_max (\<lambda>item. fst (snd item)) items else Inl OverflowError)"
    by (simp add: find_peak_py_max items_def)
  have a: "(find_peak_sales_day rnd txs = Inl ValueError) = (txs = [])"
    using empty by (auto simp: peak py_max_cases)
  have b: "(find_peak_sales_day rnd txs = Inl OverflowError)
       = (\<not> list_all (\<lambda>tx. quantity_fits (Quantity tx)) txs)"
    by (simp add: peak py_max_cases)
  have c: "(\<exists>res. find_peak_sales_day rnd txs = Inr res)
       = (txs \<noteq> [] \<and> list_all (\<lambda>tx. quantity_fits (Quantity tx)) txs)"
    using empty py_max_cases(3)[of "\<lambda>item. fst (snd item)" items] by (auto simp: peak)
  have d: "fst (validate_and_filter [raw_zero_quantity] None None None) = []"
    by (simp add: validate_no_filter sample_valid)
  show ?thesis
    using a b c d by blast
qed

text \<open>
  The claim as stated, that every non-empty input returns a value, fails: on the one
  transaction of quantity \<open>10 ^ 400\<close> and unit price 1.0 the call raises
  \<^verbatim>\<open>OverflowError\<close>, whatever the rounding.
\<close>

theorem overflow_on_nonempty_counterexample:
  "huge_sale \<noteq> []
   \<and> (\<forall>rnd. find_peak_sales_day rnd huge_sale = Inl OverflowError)"
  by (simp add: huge_sale_def sample_tx_def find_peak_sales_day_def daily_step_def
      int_times_float_def int_to_float_def overflow_threshold_def)


subsection \<open>Small numbers in double arithmetic\<close>

lemma to_float_in_range:
  "- overflow_threshold < x \<Longrightarrow> x < overflow_threshold \<Longrightarrow> to_float rnd x = Fin (rnd x)"
  by (simp add: to_float_def)

lemma threshold_large: "1000000 < overflow_threshold"
  by (simp add: overflow_threshold_def)

lemma small_fits: "\<bar>q\<bar> \<le> 1000 \<Longrightarrow> quantity_fits q"
  using threshold_large by (simp add: quantity_fits_def)

lemma to_float_small: "\<bar>x\<bar> \<le> 1000000 \<Longrightarrow> to_float sample_round x = Fin x"
  using threshold_large by (simp add: to_float_in_range sample_round_def)

lemma sample_revenue_on:
  "revenue_on sample_round float_sales ''2024-01-02'' = Fin 50"
  "revenue_on sample_round float_sales ''2024-01-01'' = Fin 50"
  "revenue_on sample_round float_sales ''2024-01-03'' = Fin 10"
  "count_on float_sales ''2024-01-02'' = 1"
  by (simp_all add: revenue_on_def count_on_def float_sales_def sample_tx_def sale_value_def
      sample_round_def[of "of_int _"] sample_round_def[of "numeral _"] to_float_small)

subsection \<open>The peak day is the first date of greatest revenue\<close>

text \<open>
  Claim C4, amended. For every non-empty transaction list whose quantities all fit a double
  and in which the aggregated revenue of no date is NaN, \<^verbatim>\<open>find_peak_sales_day\<close> returns
  a triple of a date of the input, the revenue of that date and the number of its
  transactions, the revenue being the sum the loop computes in double arithmetic, in input
  order; no date has a greater revenue, and every date met before the returned one has a
  smaller revenue, so among the dates of greatest revenue the first met is returned.
\<close>

theorem peak_day_is_first_maximum:
  assumes "txs \<noteq> []"
    and "\<forall>tx\<in>set txs. quantity_fits (Quantity tx)"
    and "\<forall>tx\<in>set txs. revenue_on rnd txs (Date tx) \<noteq> NaN"
  shows "\<exists>d. find_peak_sales_day rnd txs = Inr (d, revenue_on rnd txs d, count_on txs d)
     \<and> d \<in> set (map Date txs)
     \<and> (\<forall>tx\<in>set txs. float_le (revenue_on rnd txs (Date tx)) (revenue_on rnd txs d))
     \<and> (\<forall>d'\<in>set (takeWhile (\<lambda>x. x \<noteq> d) (map Date txs)).
           float_lt (revenue_on rnd txs d') (revenue_on rnd txs d))"
proof -
  define h where "h = (\<lambda>d. (d, revenue_on rnd txs d, count_on txs d))"
  define L where "L = map h (first_seen (map Date txs))"
  have fits: "list_all (\<lambda>tx. quantity_fits (Quantity tx)) txs"
    using assms(2) by (simp add: list_all_iff)
  have peak: "find_peak_sales_day rnd txs = py_max (\<lambda>item. fst (snd item)) L"
    by (simp add: find_peak_py_max fits L_def h_def)
  have "L \<noteq> []"
    using assms(1) by (cases txs) (simp_all add: L_def)
  then obtain m where m: "py_max (\<lambda>item. fst (snd item)) L = Inr m"
    using py_max_cases(3)[of "\<lambda>item. fst (snd item)" L] by blast
  have no_nan: "\<forall>y\<in>set L. fst (snd y) \<noteq> NaN"
    using assms(3) by (auto simp: L_def h_def)
  from py_max_first_greatest[OF m no_nan]
  have mem: "m \<in> set L"
    and ge: "\<forall>y\<in>set L. float_le (fst (snd y)) (fst (snd m))"
    and first: "\<forall>y\<in>set (takeWhile (\<lambda>y. y \<noteq> m) L). float_lt (fst (snd y)) (fst (snd m))"
    by simp_all
  from mem obtain d where d: "d \<in> set (map Date txs)" "m = h d"
    by (auto simp: L_def)
  have inj: "(h k \<noteq> m) = (k \<noteq> d)" for k
    by (auto simp: d h_def)
  have "takeWhile (\<lambda>y. y \<noteq> m) L = map h (takeWhile (\<lambda>k. k \<noteq> d) (first_seen (map Date txs)))"
    by (simp add: L_def takeWhile_map comp_def inj)
  then have before:
    "set (takeWhile (\<lambda>y. y \<noteq> m) L) = h ` set (takeWhile (\<lambda>k. k \<noteq> d) (map Date txs))"
    by (simp add: first_seen_before)
  have "\<forall>tx\<in>set txs. float_le (revenue_on rnd txs (Date tx)) (revenue_on rnd txs d)"
    using ge by (auto simp: L_def d h_def)
  moreover have "\<forall>d'\<in>set (takeWhile (\<lambda>x. x \<noteq> d) (map Date txs)).
      float_lt (revenue_on rnd txs d') (revenue_on rnd txs d)"
    using first unfolding before by (auto simp: d h_def)
  ultimately show ?thesis
    using peak m d by (auto simp: h_def)
qed

text \<open>The sample: 2024-01-02 and 2024-01-01 both reach 50.0, 2024-01-03 reaches 10.0, and
  the date met first is returned.\<close>

theorem peak_day_is_first_maximum_witness:
  "float_sales \<noteq> []
   \<and> list_all (\<lambda>tx. quantity_fits (Quantity tx)) float_sales
   \<and> revenue_on sample_round float_sales ''2024-01-02'' = Fin 50
   \<and> revenue_on sample_round float_sales ''2024-01-01'' = Fin 50
   \<and> revenue_on sample_round float_sales ''2024-01-03'' = Fin 10
   \<and> find_peak_sales_day sample_round float_sales = Inr (''2024-01-02'', Fin 50, 1)"
proof -
  have ne: "float_sales \<noteq> []"
    by (simp add: float_sales_def)
  have fits: "\<forall>tx\<in>set float_sales. quantity_fits (Quantity tx)"
    by (simp add: float_sales_def sample_tx_def small_fits)
  have no_nan: "\<forall>tx\<in>set float_sales. revenue_on sample_round float_sales (Date tx) \<noteq> NaN"
    by (simp add: float_sales_def sample_tx_def
        sample_revenue_on[unfolded float_sales_def sample_tx_def])
  from peak_day_is_first_maximum[OF ne fits no_nan] obtain d where
    res: "find_peak_sales_day sample_round float_sales =
        Inr (d, revenue_on sample_round float_sales d, count_on float_sales d)"
    and mem: "d \<in> set (map Date float_sales)"
    and ge: "\<forall>tx\<in>set float_sales.
        float_le (revenue_on sample_round float_sales (Date tx)) (revenue_on sample_round float_sales d)"
    and first: "\<forall>d'\<in>set (takeWhile (\<lambda>x. x \<noteq> d) (map Date float_sales)).
        float_lt (revenue_on sample_round float_sales d') (revenue_on sample_round float_sales d)"
    by blast
  from mem have "d = ''2024-01-02'' \<or> d = ''2024-01-01'' \<or> d = ''2024-01-03''"
    by (auto simp: float_sales_def sample_tx_def)
  then have "d = ''2024-01-02''"
  proof (elim disjE)
    assume "d = ''2024-01-01''"
    with first show ?thesis
      by (simp add: float_sales_def sample_tx_def
          sample_revenue_on[unfolded float_sales_def sample_tx_def])
  next
    assume "d = ''2024-01-03''"
    with ge show ?thesis
      by (simp add: float_sales_def sample_tx_def
          sample_revenue_on[unfolded float_sales_def sample_tx_def])
  qed
  with res ne fits show ?thesis
    by (simp add: sample_revenue_on list_all_iff)
qed

text \<open>
  The claim as stated fails where a revenue is NaN: \<^verbatim>\<open>max\<close> keeps its first candidate
  unless a later key is greater, and no comparison with NaN is true. With a unit price NaN
  on the first date and 5.0 on the second, the date of revenue NaN is returned, and the
  revenue 5.0 of the other date is not at most NaN.
\<close>

theorem nan_revenue_counterexample:
  "(\<forall>rnd. find_peak_sales_day rnd nan_sales = Inr (''2024-01-01'', NaN, 1))
   \<and> (\<forall>rnd. revenue_on rnd nan_sales ''2024-01-01'' = NaN)
   \<and> revenue_on sample_round nan_sales ''2024-01-02'' = Fin 5
   \<and> (\<forall>rnd. \<not> float_le (revenue_on rnd nan_sales ''2024-01-02'') NaN)"
  by (simp add: find_peak_py_max py_max_def nan_sales_def sample_tx_def small_fits
      revenue_on_def count_on_def sale_value_def float_le_NaN
      sample_round_def[of "of_int _"] sample_round_def[of "numeral _"] to_float_small)

end
